theory Spec2Isabelle
  imports Main "HOL-Library.Sublist"
begin

section \<open>Strings of the program\<close>

text \<open>
  The program is the cloud function \<^verbatim>\<open>functions/index.js\<close>: the HTTP handler
  \<^verbatim>\<open>processVoice\<close> and its two helpers \<^verbatim>\<open>createCodePrompt\<close> and
  \<^verbatim>\<open>cleanGeneratedCode\<close>.

  A JavaScript string is a sequence of UTF-16 code units. The model is \<open>string\<close>, a
  list of \<open>char\<close>, each \<open>char\<close> standing for the code unit of the same number
  (0 to 255, the Latin-1 range). Every literal of the source is ASCII, so nothing of the
  source is lost; inputs with code units above 255 are outside the model.
\<close>

definition code_unit :: "char \<Rightarrow> nat" where
  "code_unit c = of_char c"

text \<open>
  The regular expression class \<^verbatim>\<open>[\w]\<close> (no \<^verbatim>\<open>u\<close> or \<^verbatim>\<open>i\<close> flag):
  the letters A-Z and a-z, the digits and the underscore.
\<close>

definition is_word_char :: "char \<Rightarrow> bool" where
  "is_word_char c =
     (let n = code_unit c
      in (65 \<le> n \<and> n \<le> 90) \<or> (97 \<le> n \<and> n \<le> 122) \<or> (48 \<le> n \<and> n \<le> 57) \<or> n = 95)"

text \<open>
  What \<^verbatim>\<open>String.prototype.trim\<close> strips: the WhiteSpace and LineTerminator code units.
  Below 256 these are TAB, LF, VT, FF, CR, SPACE and NO-BREAK SPACE.
\<close>

definition is_white_space :: "char \<Rightarrow> bool" where
  "is_white_space c = (code_unit c \<in> set [9, 10, 11, 12, 13, 32, 160])"

definition trim :: "string \<Rightarrow> string" where
  "trim s = rev (dropWhile is_white_space (rev (dropWhile is_white_space s)))"

text \<open>
  \<^verbatim>\<open>String.prototype.toLowerCase\<close> on a code unit below 256: the ASCII capitals and
  the Latin-1 capitals (192 to 222 but the multiplication sign 215) move up by 32,
  every other code unit stays.
\<close>

definition to_lower_unit :: "char \<Rightarrow> char" where
  "to_lower_unit c =
     (let n = code_unit c
      in if (65 \<le> n \<and> n \<le> 90) \<or> (192 \<le> n \<and> n \<le> 222 \<and> n \<noteq> 215)
         then char_of (n + 32) else c)"

definition toLowerCase :: "string \<Rightarrow> string" where
  "toLowerCase s = map to_lower_unit s"

definition startsWith :: "string \<Rightarrow> string \<Rightarrow> bool" where
  "startsWith s p = prefix p s"

text \<open>\<^verbatim>\<open>s.substring(n)\<close> with one argument; past the end it is the empty string.\<close>

definition substring :: "string \<Rightarrow> nat \<Rightarrow> string" where
  "substring s n = drop n s"

text \<open>\<^verbatim>\<open>Array.prototype.join\<close> on an array of strings.\<close>

fun join :: "string \<Rightarrow> string list \<Rightarrow> string" where
  "join sep [] = []"
| "join sep [x] = x"
| "join sep (x # y # ys) = x @ sep @ join sep (y # ys)"


section \<open>ResponseSanitizer: \<^verbatim>\<open>cleanGeneratedCode\<close>\<close>

text \<open>
  Stage 1 is \<^verbatim>\<open>code.replace(/```[\w]*\n?/g, '')\<close>. A global replace scans the string
  from the left; at each position the pattern either matches (three backticks, then
  as many word characters as follow, then one line feed if there is one: both
  quantifiers are greedy and nothing follows them, so the longest choice is the match)
  and the scan goes on after the match, or the character is kept and the scan moves one
  position on.
\<close>

fun drop_newline :: "string \<Rightarrow> string" where
  "drop_newline [] = []"
| "drop_newline (c # cs) = (if c = CHR 0x0A then cs else c # cs)"

function removeFences :: "string \<Rightarrow> string" where
  "removeFences [] = []"
| "removeFences (c # cs) =
     (if prefix ''```'' (c # cs)
      then removeFences (drop_newline (dropWhile is_word_char (drop 3 (c # cs))))
      else c # removeFences cs)"
  by pat_completeness auto
termination
proof (relation "measure length", goal_cases)
  case 1
  show ?case by simp
next
  case (2 c cs)
  let ?after = "dropWhile is_word_char (drop 3 (c # cs))"
  have shorter: "length (drop_newline s) \<le> length s" for s
    by (cases s) auto
  have "length (drop_newline ?after) \<le> length ?after"
    by (rule shorter)
  also have "\<dots> \<le> length (drop 3 (c # cs))"
    by (rule length_dropWhile_le)
  also from 2 have "\<dots> < length (c # cs)"
    by simp
  finally show ?case by simp
next
  case 3
  show ?case by simp
qed

definition unwantedPrefixes :: "string list" where
  "unwantedPrefixes =
     [''Here's the code:'',
      ''Here is the code:'',
      ''The code is:'',
      ''Here's your code:'',
      ''Here is your code:'']"

text \<open>
  The \<^verbatim>\<open>for ... of\<close> loop over the prefixes, with its \<^verbatim>\<open>break\<close>: the first
  prefix that matches is cut off and the loop ends.
\<close>

fun strip_first_prefix :: "string list \<Rightarrow> string \<Rightarrow> string" where
  "strip_first_prefix [] cleaned = cleaned"
| "strip_first_prefix (p # ps) cleaned =
     (if startsWith (toLowerCase cleaned) (toLowerCase p)
      then trim (substring cleaned (length p))
      else strip_first_prefix ps cleaned)"

definition cleanGeneratedCode :: "string \<Rightarrow> string" where
  "cleanGeneratedCode code = strip_first_prefix unwantedPrefixes (trim (removeFences code))"


section \<open>PromptBuilder: \<^verbatim>\<open>createCodePrompt\<close>\<close>

text \<open>
  The \<^verbatim>\<open>language\<close> argument comes from the JSON body of the request and is used
  as it is, so it need not be a string. The values modelled are the ones whose
  conversion to a string is a fixed text, and the two kinds of value that a property
  read on an object literal can return besides the literal's own strings: a built-in
  function and \<^verbatim>\<open>Object.prototype\<close> itself.
\<close>

datatype js_value =
    JSUndefined
  | JSNull
  | JSBool bool
  | JSString string
  | JSNativeFunction string
  | JSObjectPrototype

text \<open>ToString, as a template literal and a property key apply it (V8's text for a built-in function).\<close>

fun to_string :: "js_value \<Rightarrow> string" where
  "to_string JSUndefined = ''undefined''"
| "to_string JSNull = ''null''"
| "to_string (JSBool b) = (if b then ''true'' else ''false'')"
| "to_string (JSString s) = s"
| "to_string (JSNativeFunction n) = ''function '' @ n @ ''() { [native code] }''"
| "to_string JSObjectPrototype = ''[object Object]''"

fun truthy :: "js_value \<Rightarrow> bool" where
  "truthy JSUndefined = False"
| "truthy JSNull = False"
| "truthy (JSBool b) = b"
| "truthy (JSString s) = (s \<noteq> [])"
| "truthy (JSNativeFunction n) = True"
| "truthy JSObjectPrototype = True"

text \<open>\<^verbatim>\<open>a || b\<close>\<close>

definition js_or :: "js_value \<Rightarrow> js_value \<Rightarrow> js_value" where
  "js_or a b = (if truthy a then a else b)"

text \<open>The own properties of the object literal \<^verbatim>\<open>languageInstructions\<close>.\<close>

definition languageInstructions :: "(string \<times> string) list" where
  "languageInstructions =
     [(''javascript'', ''Generate clean, modern JavaScript code. Use ES6+ features when appropriate.''),
      (''python'', ''Generate clean Python code following PEP 8 standards. Use type hints when helpful.''),
      (''java'', ''Generate clean Java code with proper class structure and naming conventions.''),
      (''cpp'', ''Generate clean C++ code with proper headers and modern C++ features.''),
      (''html'', ''Generate semantic HTML5 code with proper structure and accessibility.''),
      (''css'', ''Generate modern CSS with flexbox/grid and responsive design principles.'')]"

text \<open>
  An object literal inherits from \<^verbatim>\<open>Object.prototype\<close>, and a property read
  \<^verbatim>\<open>obj[key]\<close> that finds no own property goes on to the prototype. These are the
  properties of \<^verbatim>\<open>Object.prototype\<close>; the accessor \<^verbatim>\<open>__proto__\<close> returns the
  prototype of the object read, which is \<^verbatim>\<open>Object.prototype\<close>.
\<close>

definition object_prototype :: "(string \<times> js_value) list" where
  "object_prototype =
     [(''constructor'', JSNativeFunction ''Object''),
      (''__defineGetter__'', JSNativeFunction ''__defineGetter__''),
      (''__defineSetter__'', JSNativeFunction ''__defineSetter__''),
      (''hasOwnProperty'', JSNativeFunction ''hasOwnProperty''),
      (''__lookupGetter__'', JSNativeFunction ''__lookupGetter__''),
      (''__lookupSetter__'', JSNativeFunction ''__lookupSetter__''),
      (''isPrototypeOf'', JSNativeFunction ''isPrototypeOf''),
      (''propertyIsEnumerable'', JSNativeFunction ''propertyIsEnumerable''),
      (''toString'', JSNativeFunction ''toString''),
      (''valueOf'', JSNativeFunction ''valueOf''),
      (''__proto__'', JSObjectPrototype),
      (''toLocaleString'', JSNativeFunction ''toLocaleString'')]"

text \<open>\<^verbatim>\<open>own[key]\<close> for an object literal with the string-valued own properties \<open>own\<close>.\<close>

definition get_property :: "(string \<times> string) list \<Rightarrow> js_value \<Rightarrow> js_value" where
  "get_property own key =
     (case map_of own (to_string key) of
        Some v \<Rightarrow> JSString v
      | None \<Rightarrow>
          (case map_of object_prototype (to_string key) of
             Some v \<Rightarrow> v
           | None \<Rightarrow> JSUndefined))"

text \<open>The template literal of the source, line for line; its line breaks are line feeds.\<close>

definition createCodePrompt :: "string \<Rightarrow> js_value \<Rightarrow> string" where
  \<open>createCodePrompt transcript language =
     ''You are a code generation assistant. Convert the following natural language request into ''
       @ to_string language @ '' code.\<newline>''
       @ ''\<newline>''
       @ ''Request: "'' @ transcript @ ''"\<newline>''
       @ ''\<newline>''
       @ ''Requirements:\<newline>''
       @ ''- '' @ to_string (js_or (get_property languageInstructions language)
                             (JSString ''Generate clean, well-structured code.'')) @ ''\<newline>''
       @ ''- Include helpful comments\<newline>''
       @ ''- Make the code production-ready\<newline>''
       @ ''- If the request is unclear, make reasonable assumptions\<newline>''
       @ ''- Only return the code, no explanations or markdown formatting\<newline>''
       @ ''\<newline>''
       @ ''Generate the '' @ to_string language @ '' code:''\<close>


section \<open>The pipeline: the handler \<^verbatim>\<open>processVoice\<close>\<close>

text \<open>
  The two external services are parameters of the model. Each call either throws
  (\<open>Inl\<close>) or returns (\<open>Inr\<close>). The speech service returns
  \<^verbatim>\<open>response.results\<close>, each result the transcripts of its
  \<^verbatim>\<open>alternatives\<close>; the generation service returns
  \<^verbatim>\<open>result.response.candidates\<close>, each candidate the texts of its
  \<^verbatim>\<open>content.parts\<close>. The audio buffer is determined by the base64 string it is
  decoded from (decoding a string never throws), so the speech service is given that
  string.
\<close>

datatype js_error = TypeError string | ServiceError string

type_synonym recognition_result = "string list"

type_synonym candidate = "string list"

record services =
  recognize :: "string \<Rightarrow> js_error + recognition_result list"
  generateContent :: "string \<Rightarrow> js_error + candidate list"

text \<open>
  What a run does besides answering: the console lines it writes and the service
  calls it makes, in order.
\<close>

datatype event =
    ConsoleLog string
  | ConsoleError string js_error
  | SpeechCall string
  | GenerateCall string

datatype response_body =
    SendText string
  | JsonFailure string
  | JsonSuccess string string js_value

record response =
  status :: nat
  headers :: "(string \<times> string) list"
  body :: response_body

text \<open>
  The request: \<^verbatim>\<open>req.method\<close> and \<^verbatim>\<open>req.body\<close>. A request that carries no
  body has \<^verbatim>\<open>req.body\<close> undefined (\<open>None\<close>); otherwise the body is the parsed JSON
  object, of which the handler reads two fields, and a field the object does not have
  is \<open>JSUndefined\<close>. Of the values a JSON field can hold, the model has null, the
  booleans and the strings; numbers, arrays and objects are left out.
\<close>

record json_body =
  audio :: js_value
  language :: js_value

record request =
  req_method :: string
  req_body :: "json_body option"

definition cors_headers :: "(string \<times> string) list" where
  "cors_headers =
     [(''Access-Control-Allow-Origin'', ''*''),
      (''Access-Control-Allow-Methods'', ''GET, POST''),
      (''Access-Control-Allow-Headers'', ''Content-Type'')]"

definition respond :: "nat \<Rightarrow> response_body \<Rightarrow> response" where
  "respond st b = \<lparr>status = st, headers = cors_headers, body = b\<rparr>"

text \<open>\<^verbatim>\<open>Buffer.from(audio, 'base64')\<close>: a string is decoded, the other values modelled throw.\<close>

fun buffer_from_base64 :: "js_value \<Rightarrow> js_error + string" where
  "buffer_from_base64 (JSString s) = Inr s"
| "buffer_from_base64 v =
     Inl (TypeError ''The first argument must be of type string or an instance of Buffer, ArrayBuffer, or Array or an Array-like Object.'')"

text \<open>\<^verbatim>\<open>result.alternatives[0].transcript\<close>: reading a property of \<^verbatim>\<open>undefined\<close> throws.\<close>

fun first_transcript :: "recognition_result \<Rightarrow> js_error + string" where
  "first_transcript [] = Inl (TypeError ''Cannot read properties of undefined (reading 'transcript')'')"
| "first_transcript (a # alternatives) = Inr a"

text \<open>\<^verbatim>\<open>response.results.map(result => result.alternatives[0].transcript)\<close>\<close>

fun map_first_transcripts :: "recognition_result list \<Rightarrow> js_error + string list" where
  "map_first_transcripts [] = Inr []"
| "map_first_transcripts (r # rs) =
     (case first_transcript r of
        Inl e \<Rightarrow> Inl e
      | Inr t \<Rightarrow>
          (case map_first_transcripts rs of
             Inl e \<Rightarrow> Inl e
           | Inr ts \<Rightarrow> Inr (t # ts)))"

text \<open>\<^verbatim>\<open>result.response.candidates[0].content.parts[0].text\<close>\<close>

fun first_candidate_text :: "candidate list \<Rightarrow> js_error + string" where
  "first_candidate_text [] = Inl (TypeError ''Cannot read properties of undefined (reading 'content')'')"
| "first_candidate_text ([] # candidates) = Inl (TypeError ''Cannot read properties of undefined (reading 'text')'')"
| "first_candidate_text ((t # parts) # candidates) = Inr t"

text \<open>
  The body of the \<^verbatim>\<open>try\<close> block: the events so far, and either the error thrown or
  the response sent. Its first statement, \<^verbatim>\<open>const { audio, language } = req.body\<close>,
  throws when \<^verbatim>\<open>req.body\<close> is undefined.
\<close>

definition try_block :: "services \<Rightarrow> request \<Rightarrow> event list \<times> (js_error + response)" where
  "try_block sv req =
     (case req_body req of
        None \<Rightarrow>
          ([], Inl (TypeError ''Cannot destructure property 'audio' of 'req.body' as it is undefined.''))
      | Some b \<Rightarrow>
          if \<not> truthy (audio b)
          then ([], Inr (respond 400 (JsonFailure ''No audio data provided'')))
          else
            let ev1 = [ConsoleLog ''Processing speech to text...''] in
            case buffer_from_base64 (audio b) of
              Inl e \<Rightarrow> (ev1, Inl e)
            | Inr audioBytes \<Rightarrow>
                let ev2 = ev1 @ [SpeechCall audioBytes] in
                (case recognize sv audioBytes of
                   Inl e \<Rightarrow> (ev2, Inl e)
                 | Inr results \<Rightarrow>
                     (case map_first_transcripts results of
                        Inl e \<Rightarrow> (ev2, Inl e)
                      | Inr ts \<Rightarrow>
                          let transcription = join ''\<newline>'' ts in
                          if trim transcription = []
                          then (ev2, Inr (respond 400
                                  (JsonFailure ''No speech detected. Please try speaking more clearly.'')))
                          else
                            let ev3 = ev2 @ [ConsoleLog (''Transcript: '' @ transcription),
                                             ConsoleLog ''Generating code with Gemini...''];
                                codePrompt = createCodePrompt transcription (language b);
                                ev4 = ev3 @ [GenerateCall codePrompt]
                            in
                            (case generateContent sv codePrompt of
                               Inl e \<Rightarrow> (ev4, Inl e)
                             | Inr result \<Rightarrow>
                                 (case first_candidate_text result of
                                    Inl e \<Rightarrow> (ev4, Inl e)
                                  | Inr generatedCode \<Rightarrow>
                                      (ev4 @ [ConsoleLog ''Code generated successfully''],
                                       Inr (respond 200
                                         (JsonSuccess transcription (cleanGeneratedCode generatedCode)
                                            (language b)))))))))"

text \<open>The handler: the two gates on the method, the \<^verbatim>\<open>try\<close> block and its \<^verbatim>\<open>catch\<close>.\<close>

definition processVoice :: "services \<Rightarrow> request \<Rightarrow> response \<times> event list" where
  "processVoice sv req =
     (if req_method req = ''OPTIONS'' then (respond 204 (SendText []), [])
      else if req_method req \<noteq> ''POST'' then (respond 405 (SendText ''Method Not Allowed''), [])
      else
        case try_block sv req of
          (evs, Inr res) \<Rightarrow> (res, evs)
        | (evs, Inl e) \<Rightarrow>
            (respond 500 (JsonFailure ''Failed to process voice input. Please try again.''),
             evs @ [ConsoleError ''Error processing voice:'' e]))"


fun is_generate_call :: "event \<Rightarrow> bool" where
  "is_generate_call (GenerateCall p) = True"
| "is_generate_call ev = False"


definition generation_invoked :: "event list \<Rightarrow> bool" where
  "generation_invoked evs = list_ex is_generate_call evs"


section \<open>Notions the properties are stated with\<close>

text \<open>A string that \<open>trim\<close> leaves alone: empty, or with no white space at either end.\<close>

definition trimmed :: "string \<Rightarrow> bool" where
  "trimmed s = (s = [] \<or> (\<not> is_white_space (hd s) \<and> \<not> is_white_space (last s)))"

text \<open>A string that begins, case-insensitively, with one of the known preface phrases.\<close>

definition starts_with_known_preface :: "string \<Rightarrow> bool" where
  "starts_with_known_preface s =
     (\<exists>p\<in>set unwantedPrefixes. startsWith (toLowerCase s) (toLowerCase p))"

text \<open>A transcript with nothing but white space in it (the empty one too).\<close>

definition blank :: "string \<Rightarrow> bool" where
  "blank s = list_all is_white_space s"

text \<open>
  Stage 1 as the specification describes it: a delimiter is a triple backtick and the
  language tag that follows it immediately; the scan removes the delimiters and
  nothing else.
\<close>

function strip_delimiters_only :: "string \<Rightarrow> string" where
  "strip_delimiters_only [] = []"
| "strip_delimiters_only (c # cs) =
     (if prefix ''```'' (c # cs)
      then strip_delimiters_only (dropWhile is_word_char (drop 3 (c # cs)))
      else c # strip_delimiters_only cs)"
  by pat_completeness auto
termination
proof (relation "measure length", goal_cases)
  case 1
  show ?case by simp
next
  case (2 c cs)
  have "length (dropWhile is_word_char (drop 3 (c # cs))) \<le> length (drop 3 (c # cs))"
    by (rule length_dropWhile_le)
  also from 2 have "\<dots> < length (c # cs)"
    by simp
  finally show ?case by simp
next
  case 3
  show ?case by simp
qed

section \<open>Facts about the string operations\<close>

lemma last_dropWhile: "dropWhile P xs \<noteq> [] \<Longrightarrow> last (dropWhile P xs) = last xs"
  by (induction xs) (auto split: if_splits)

lemma trim_sublist: "sublist (trim s) s"
proof -
  let ?u = "dropWhile is_white_space s"
  have "suffix (dropWhile is_white_space (rev ?u)) (rev ?u)"
    by (rule suffix_dropWhile)
  then have "prefix (trim s) ?u"
    by (simp add: trim_def suffix_to_prefix)
  then have "sublist (trim s) ?u"
    by (rule prefix_imp_sublist)
  moreover have "sublist ?u s"
    by (rule sublist_dropWhile)
  ultimately show ?thesis
    by (rule sublist_order.order_trans)
qed

lemma trimmed_trim: "trimmed (trim s)"
proof -
  let ?u = "dropWhile is_white_space s"
  let ?v = "dropWhile is_white_space (rev ?u)"
  have t: "trim s = rev ?v"
    by (simp add: trim_def)
  show ?thesis
  proof (cases "?v = []")
    case True
    then show ?thesis by (simp add: t trimmed_def)
  next
    case False
    then have hv: "\<not> is_white_space (hd ?v)"
      by (rule hd_dropWhile)
    have u: "?u \<noteq> []"
    proof
      assume "?u = []"
      then have "?v = []" by (simp only: rev.simps dropWhile.simps)
      with False show False by blast
    qed
    then have hu: "\<not> is_white_space (hd ?u)"
      by (rule hd_dropWhile)
    from False have "last ?v = last (rev ?u)"
      by (rule last_dropWhile)
    with u have "last ?v = hd ?u"
      by (simp add: last_rev)
    with hu hv False show ?thesis
      by (simp add: t trimmed_def hd_rev last_rev)
  qed
qed

lemma trim_trimmed: "trimmed s \<Longrightarrow> trim s = s"
proof (cases "s = []")
  case True
  then show ?thesis by (simp add: trim_def)
next
  case False
  assume "trimmed s"
  with False have h: "\<not> is_white_space (hd s)" and l: "\<not> is_white_space (last s)"
    by (simp_all add: trimmed_def)
  from False h have 1: "dropWhile is_white_space s = s"
    by (cases s) auto
  from False l have 2: "dropWhile is_white_space (rev s) = rev s"
    by (cases "rev s") (auto simp: last_rev)
  show ?thesis by (simp add: trim_def 1 2)
qed

lemma trim_idem: "trim (trim s) = trim s"
  by (rule trim_trimmed[OF trimmed_trim])


section \<open>Stage 1: the fence markers\<close>

lemma removeFences_fence:
  assumes "prefix ''```'' s"
  shows "removeFences s = removeFences (drop_newline (dropWhile is_word_char (drop 3 s)))"
proof (cases s)
  case Nil
  with assms show ?thesis by simp
next
  case (Cons c cs)
  from assms have "prefix ''```'' (c # cs)" unfolding Cons .
  then show ?thesis unfolding Cons by (subst removeFences.simps) (simp only: if_True)
qed

lemma removeFences_other:
  assumes "\<not> prefix ''```'' (c # cs)"
  shows "removeFences (c # cs) = c # removeFences cs"
  using assms by (subst removeFences.simps) (simp only: if_False)

lemma prefix_fence_iff: "prefix ''```'' s \<longleftrightarrow> (\<exists>t. s = CHR 0x60 # CHR 0x60 # CHR 0x60 # t)"
  by (auto simp: prefix_def)

text \<open>A backtick at the head of the output was at the head of the input, and so were two.\<close>

lemma removeFences_head_backtick:
  assumes "removeFences s = CHR 0x60 # r"
  shows "\<exists>t. s = CHR 0x60 # t"
proof (cases s)
  case Nil
  with assms show ?thesis by simp
next
  case (Cons c cs)
  show ?thesis
  proof (cases "prefix ''```'' s")
    case True
    then show ?thesis unfolding prefix_fence_iff by blast
  next
    case False
    with Cons assms have "c = CHR 0x60"
      by (simp only: removeFences_other list.inject)
    with Cons show ?thesis by blast
  qed
qed

lemma removeFences_head_two_backticks:
  assumes "removeFences s = CHR 0x60 # CHR 0x60 # r"
  shows "\<exists>t. s = CHR 0x60 # CHR 0x60 # t"
proof (cases s)
  case Nil
  with assms show ?thesis by simp
next
  case (Cons c cs)
  show ?thesis
  proof (cases "prefix ''```'' s")
    case True
    then show ?thesis unfolding prefix_fence_iff by blast
  next
    case False
    with Cons assms have "c = CHR 0x60" and "removeFences cs = CHR 0x60 # r"
      by (simp_all only: removeFences_other list.inject)
    with Cons removeFences_head_backtick[of cs r] show ?thesis by blast
  qed
qed

lemma removeFences_no_fence: "\<not> sublist ''```'' (removeFences s)"
proof (induction s rule: removeFences.induct)
  case 1
  then show ?case by simp
next
  case (2 c cs)
  show ?case
  proof (cases "prefix ''```'' (c # cs)")
    case True
    from 2(1)[OF True] show ?thesis unfolding removeFences_fence[OF True] .
  next
    case False
    have "\<not> prefix ''```'' (c # removeFences cs)"
    proof
      assume "prefix ''```'' (c # removeFences cs)"
      then obtain r where c: "c = CHR 0x60" and r: "removeFences cs = CHR 0x60 # CHR 0x60 # r"
        unfolding prefix_fence_iff by blast
      from removeFences_head_two_backticks[OF r] c have "prefix ''```'' (c # cs)"
        unfolding prefix_fence_iff by blast
      with False show False by blast
    qed
    moreover from 2(2)[OF False] have "\<not> sublist ''```'' (removeFences cs)" .
    ultimately show ?thesis
      unfolding removeFences_other[OF False] sublist_Cons_right by blast
  qed
qed

lemma removeFences_id: "\<not> sublist ''```'' s \<Longrightarrow> removeFences s = s"
proof (induction s)
  case Nil
  then show ?case by simp
next
  case (Cons c cs)
  from Cons.prems have np: "\<not> prefix ''```'' (c # cs)" and ns: "\<not> sublist ''```'' cs"
    unfolding sublist_Cons_right by blast+
  from Cons.IH[OF ns] show ?case unfolding removeFences_other[OF np] by blast
qed

lemma subseq_drop_newline: "subseq (drop_newline s) s"
  by (cases s) auto

lemma removeFences_subseq: "subseq (removeFences s) s"
proof (induction s rule: removeFences.induct)
  case 1
  show ?case by simp
next
  case (2 c cs)
  show ?case
  proof (cases "prefix ''```'' (c # cs)")
    case True
    let ?r = "drop_newline (dropWhile is_word_char (drop 3 (c # cs)))"
    have "subseq ?r (dropWhile is_word_char (drop 3 (c # cs)))"
      by (rule subseq_drop_newline)
    also have "subseq \<dots> (drop 3 (c # cs))"
      by (rule sublist_imp_subseq[OF sublist_dropWhile])
    also have "subseq \<dots> (c # cs)"
      by (rule sublist_imp_subseq[OF sublist_drop])
    finally have "subseq ?r (c # cs)" .
    with 2(1)[OF True] have "subseq (removeFences ?r) (c # cs)"
      by (rule subseq_order.order_trans)
    then show ?thesis unfolding removeFences_fence[OF True] .
  next
    case False
    from 2(2)[OF False] show ?thesis unfolding removeFences_other[OF False] by simp
  qed
qed

lemma not_word_newline: "\<not> is_word_char (CHR 0x0A)"
  by (simp add: is_word_char_def code_unit_def)

lemma prefix_fence_shorten:
  "prefix ''```'' (c # a @ ''```'' @ sfx) \<Longrightarrow> prefix ''```'' (c # a @ ''``'')"
proof (cases a)
  case Nil
  assume "prefix ''```'' (c # a @ ''```'' @ sfx)"
  with Nil show ?thesis by (auto simp: prefix_def)
next
  case (Cons d a')
  assume h: "prefix ''```'' (c # a @ ''```'' @ sfx)"
  show ?thesis
  proof (cases a')
    case Nil
    with Cons h show ?thesis by (auto simp: prefix_def)
  next
    case (Cons e a'')
    with \<open>a = d # a'\<close> h show ?thesis by (auto simp: prefix_def)
  qed
qed

text \<open>At a delimiter: the three backticks, the tag and one line feed go, the rest is scanned on.\<close>

lemma removeFences_at_delimiter:
  assumes tag: "\<forall>c\<in>set tag. is_word_char c"
    and nl: "nl = [] \<or> nl = [CHR 0x0A]"
    and rest: "nl = [] \<longrightarrow> rest = [] \<or> (\<not> is_word_char (hd rest) \<and> hd rest \<noteq> CHR 0x0A)"
  shows "removeFences (''```'' @ tag @ nl @ rest) = removeFences rest"
proof -
  have p: "prefix ''```'' (''```'' @ tag @ nl @ rest)"
    by (rule prefixI) simp
  have d: "drop 3 (''```'' @ tag @ nl @ rest) = tag @ nl @ rest"
    by simp
  from tag have w: "dropWhile is_word_char (tag @ nl @ rest) = dropWhile is_word_char (nl @ rest)"
    by (intro dropWhile_append2) blast
  have "drop_newline (dropWhile is_word_char (nl @ rest)) = rest"
  proof (cases "nl = []")
    case True
    with rest show ?thesis by (cases rest) auto
  next
    case False
    with nl have "nl = [CHR 0x0A]" by blast
    then show ?thesis by (simp add: not_word_newline)
  qed
  then show ?thesis unfolding removeFences_fence[OF p] d w by (rule arg_cong)
qed

text \<open>Before the first delimiter nothing is removed.\<close>

lemma removeFences_before_delimiter:
  assumes "\<not> sublist ''```'' (a @ ''``'')"
  shows "removeFences (a @ ''```'' @ sfx) = a @ removeFences (''```'' @ sfx)"
  using assms
proof (induction a)
  case Nil
  show ?case by (simp only: append_Nil)
next
  case (Cons c a)
  from Cons.prems have np: "\<not> prefix ''```'' (c # a @ ''``'')" and ns: "\<not> sublist ''```'' (a @ ''``'')"
    unfolding append_Cons sublist_Cons_right by blast+
  from np prefix_fence_shorten[of c a sfx] have "\<not> prefix ''```'' (c # a @ ''```'' @ sfx)"
    by blast
  from removeFences_other[OF this] Cons.IH[OF ns] show ?case
    by (simp only: append_Cons)
qed


section \<open>Stage 3: the preface phrases\<close>

lemma known_prefaces_prefix_free:
  "\<forall>p\<in>set unwantedPrefixes. \<forall>q\<in>set unwantedPrefixes.
     prefix (toLowerCase p) (toLowerCase q) \<longrightarrow> p = q"
  by code_simp

lemma unwantedPrefixes_nonempty: "\<forall>p\<in>set unwantedPrefixes. p \<noteq> []"
  by (simp add: unwantedPrefixes_def)

lemma strip_first_prefix_none:
  "\<forall>p\<in>set ps. \<not> startsWith (toLowerCase t) (toLowerCase p) \<Longrightarrow> strip_first_prefix ps t = t"
  by (induction ps) simp_all

lemma strip_first_prefix_find:
  "strip_first_prefix ps t =
     (case find (\<lambda>p. startsWith (toLowerCase t) (toLowerCase p)) ps of
        None \<Rightarrow> t
      | Some p \<Rightarrow> trim (substring t (length p)))"
  by (induction ps) simp_all

lemma known_preface_unique:
  assumes "p \<in> set unwantedPrefixes" "q \<in> set unwantedPrefixes"
    and "startsWith (toLowerCase t) (toLowerCase p)" "startsWith (toLowerCase t) (toLowerCase q)"
  shows "p = q"
proof -
  from assms(3,4)
  have "prefix (toLowerCase p) (toLowerCase q) \<or> prefix (toLowerCase q) (toLowerCase p)"
    unfolding startsWith_def by (rule prefix_same_cases)
  with assms(1,2) known_prefaces_prefix_free show ?thesis by blast
qed

lemma strip_known_preface:
  assumes "p \<in> set unwantedPrefixes" and "startsWith (toLowerCase t) (toLowerCase p)"
  shows "strip_first_prefix unwantedPrefixes t = trim (substring t (length p))"
proof -
  let ?m = "\<lambda>p. startsWith (toLowerCase t) (toLowerCase p)"
  from assms obtain q where q: "find ?m unwantedPrefixes = Some q"
    by (cases "find ?m unwantedPrefixes") (auto simp: find_None_iff)
  then have "q \<in> set unwantedPrefixes" and "?m q"
    by (auto simp: find_Some_iff)
  with assms have "q = p"
    by (blast intro: known_preface_unique)
  with q show ?thesis
    by (simp add: strip_first_prefix_find)
qed


section \<open>The sanitizer as a whole\<close>

lemma cleaned_cases:
  "cleanGeneratedCode x = trim (removeFences x) \<or>
   (\<exists>n. cleanGeneratedCode x = trim (drop n (trim (removeFences x))))"
  unfolding cleanGeneratedCode_def strip_first_prefix_find substring_def
  by (auto split: option.splits)

lemma cleaned_sublist: "sublist (cleanGeneratedCode x) (removeFences x)"
proof -
  have a: "sublist (trim (removeFences x)) (removeFences x)"
    by (rule trim_sublist)
  have "sublist (trim (drop n (trim (removeFences x)))) (removeFences x)" for n
    by (meson sublist_order.order_trans trim_sublist sublist_drop)
  with a cleaned_cases[of x] show ?thesis by auto
qed

lemma cleaned_no_fence: "\<not> sublist ''```'' (cleanGeneratedCode x)"
  using cleaned_sublist[of x] removeFences_no_fence[of x]
  by (meson sublist_order.order_trans)

lemma cleaned_trimmed: "trim (cleanGeneratedCode x) = cleanGeneratedCode x"
  using cleaned_cases[of x] by (auto simp: trim_idem)

lemma clean_cleaned:
  "cleanGeneratedCode (cleanGeneratedCode x) = strip_first_prefix unwantedPrefixes (cleanGeneratedCode x)"
  by (simp add: cleanGeneratedCode_def[of "cleanGeneratedCode x"]
      removeFences_id[OF cleaned_no_fence] cleaned_trimmed)

lemma clean_fenced_example:
  "cleanGeneratedCode ''```js\<newline>code\<newline>```'' = ''code''"
  by code_simp

lemma clean_preface_examples:
  "cleanGeneratedCode ''Here's the code:\<newline>  foo()'' = ''foo()''"
  "cleanGeneratedCode ''HERE IS THE CODE: bar()'' = ''bar()''"
  by code_simp+

lemma clean_double_preface:
  "cleanGeneratedCode ''Here's the code:Here's the code:x'' = ''Here's the code:x''"
  "cleanGeneratedCode ''Here's the code:x'' = ''x''"
  by code_simp+

section \<open>Properties of the ResponseSanitizer\<close>

text \<open>
  Claim C4. For every input string, the output of the sanitizer contains no fence
  marker, that is no three consecutive backticks; and for the input made of the line
  \<^verbatim>\<open>```js\<close>, the line \<^verbatim>\<open>code\<close> and the line \<^verbatim>\<open>```\<close> the output is exactly
  \<^verbatim>\<open>code\<close>.
\<close>

theorem cleanGeneratedCode_no_fence_marker:
  "\<not> sublist ''```'' (cleanGeneratedCode x)
   \<and> cleanGeneratedCode ''```js\<newline>code\<newline>```'' = ''code''"
proof
  show "\<not> sublist ''```'' (cleanGeneratedCode x)"
    by (rule cleaned_no_fence)
  show "cleanGeneratedCode ''```js\<newline>code\<newline>```'' = ''code''"
    by (rule clean_fenced_example)
qed

text \<open>
  Claim C1, as the specification states it: the sanitizer is idempotent on every
  string. It is not: the loop over the preface phrases ends at its first match, so an
  output that again begins with a preface phrase loses that phrase in a second run.
\<close>

theorem cleanGeneratedCode_not_idempotent:
  "cleanGeneratedCode (cleanGeneratedCode ''Here's the code:Here's the code:x'')
   \<noteq> cleanGeneratedCode ''Here's the code:Here's the code:x''"
  by (simp only: clean_double_preface) simp

text \<open>
  Claim C1, amended. A second run of the sanitizer on its own output returns that
  output exactly when the output does not begin, case-insensitively, with one of the
  five known preface phrases. (No fence marker is left in an output and an output is
  trimmed, so the first two stages change nothing in the second run.)
\<close>

theorem cleanGeneratedCode_idempotent_iff:
  "cleanGeneratedCode (cleanGeneratedCode x) = cleanGeneratedCode x
   \<longleftrightarrow> \<not> starts_with_known_preface (cleanGeneratedCode x)"
proof (cases "starts_with_known_preface (cleanGeneratedCode x)")
  case False
  then have "strip_first_prefix unwantedPrefixes (cleanGeneratedCode x) = cleanGeneratedCode x"
    unfolding starts_with_known_preface_def by (intro strip_first_prefix_none) blast
  with False show ?thesis
    by (simp add: clean_cleaned)
next
  case True
  let ?o = "cleanGeneratedCode x"
  from True obtain p where p: "p \<in> set unwantedPrefixes"
    and m: "startsWith (toLowerCase ?o) (toLowerCase p)"
    unfolding starts_with_known_preface_def by blast
  from p unwantedPrefixes_nonempty have pl: "0 < length p"
    by auto
  from m have "length (toLowerCase p) \<le> length (toLowerCase ?o)"
    unfolding startsWith_def by (rule prefix_length_le)
  then have lo: "length p \<le> length ?o"
    by (simp add: toLowerCase_def)
  have "length (trim (substring ?o (length p))) \<le> length (substring ?o (length p))"
    by (rule sublist_length_le[OF trim_sublist])
  also have "\<dots> < length ?o"
    using pl lo unfolding substring_def length_drop by arith
  finally have "trim (substring ?o (length p)) \<noteq> ?o"
    by auto
  with True show ?thesis
    by (simp add: clean_cleaned strip_known_preface[OF p m])
qed

theorem cleanGeneratedCode_idempotent_iff_witness:
  "\<not> starts_with_known_preface (cleanGeneratedCode ''  print(1)  '')
   \<and> cleanGeneratedCode (cleanGeneratedCode ''  print(1)  '') = cleanGeneratedCode ''  print(1)  ''"
proof -
  have h: "\<not> starts_with_known_preface (cleanGeneratedCode ''  print(1)  '')"
    by code_simp
  with cleanGeneratedCode_idempotent_iff[of "''  print(1)  ''"] show ?thesis
    by blast
qed

text \<open>
  Claim C3. Let \<open>t\<close> be the input after stages 1 and 2. If \<open>t\<close> begins,
  case-insensitively, with a phrase \<open>p\<close> of the five-entry list, the output is \<open>t\<close>
  without its first \<open>length p\<close> characters, trimmed again, and nothing more is
  removed; if \<open>t\<close> begins with none of them the output is \<open>t\<close>. The two examples of
  the specification come out as stated, and of two prefaces in a row only the first is
  removed.
\<close>

theorem cleanGeneratedCode_strips_one_preface:
  "(\<forall>p\<in>set unwantedPrefixes.
      startsWith (toLowerCase (trim (removeFences x))) (toLowerCase p)
      \<longrightarrow> cleanGeneratedCode x = trim (substring (trim (removeFences x)) (length p)))
   \<and> (\<not> starts_with_known_preface (trim (removeFences x))
      \<longrightarrow> cleanGeneratedCode x = trim (removeFences x))
   \<and> length unwantedPrefixes = 5
   \<and> cleanGeneratedCode ''Here's the code:\<newline>  foo()'' = ''foo()''
   \<and> cleanGeneratedCode ''HERE IS THE CODE: bar()'' = ''bar()''
   \<and> cleanGeneratedCode ''Here's the code:Here's the code:x'' = ''Here's the code:x''"
proof (intro conjI ballI impI)
  fix p
  assume "p \<in> set unwantedPrefixes"
    and "startsWith (toLowerCase (trim (removeFences x))) (toLowerCase p)"
  then show "cleanGeneratedCode x = trim (substring (trim (removeFences x)) (length p))"
    unfolding cleanGeneratedCode_def by (rule strip_known_preface)
next
  assume "\<not> starts_with_known_preface (trim (removeFences x))"
  then show "cleanGeneratedCode x = trim (removeFences x)"
    unfolding cleanGeneratedCode_def starts_with_known_preface_def
    by (intro strip_first_prefix_none) blast
next
  show "length unwantedPrefixes = 5"
    by (simp add: unwantedPrefixes_def)
next
  show "cleanGeneratedCode ''Here's the code:\<newline>  foo()'' = ''foo()''"
    by (rule clean_preface_examples)
next
  show "cleanGeneratedCode ''HERE IS THE CODE: bar()'' = ''bar()''"
    by (rule clean_preface_examples)
next
  show "cleanGeneratedCode ''Here's the code:Here's the code:x'' = ''Here's the code:x''"
    by (rule clean_double_preface)
qed

theorem cleanGeneratedCode_strips_one_preface_witness:
  "''Here is the code:'' \<in> set unwantedPrefixes
   \<and> startsWith (toLowerCase (trim (removeFences ''HERE IS THE CODE: bar()'')))
        (toLowerCase ''Here is the code:'')
   \<and> cleanGeneratedCode ''HERE IS THE CODE: bar()''
       = trim (substring (trim (removeFences ''HERE IS THE CODE: bar()'')) (length ''Here is the code:''))
   \<and> \<not> starts_with_known_preface (trim (removeFences ''  print(1)  ''))
   \<and> cleanGeneratedCode ''  print(1)  '' = trim (removeFences ''  print(1)  '')"
proof -
  have h1: "''Here is the code:'' \<in> set unwantedPrefixes"
    by (simp add: unwantedPrefixes_def)
  have h2: "startsWith (toLowerCase (trim (removeFences ''HERE IS THE CODE: bar()'')))
              (toLowerCase ''Here is the code:'')"
    by code_simp
  have h3: "\<not> starts_with_known_preface (trim (removeFences ''  print(1)  ''))"
    by code_simp
  from cleanGeneratedCode_strips_one_preface[of "''HERE IS THE CODE: bar()''"] h1 h2
  have c1: "cleanGeneratedCode ''HERE IS THE CODE: bar()''
       = trim (substring (trim (removeFences ''HERE IS THE CODE: bar()'')) (length ''Here is the code:''))"
    by blast
  from cleanGeneratedCode_strips_one_preface[of "''  print(1)  ''"] h3
  have c2: "cleanGeneratedCode ''  print(1)  '' = trim (removeFences ''  print(1)  '')"
    by blast
  from h1 h2 c1 h3 c2 show ?thesis
    by (intro conjI)
qed

text \<open>
  Claim C5, as the specification states it: stage 1 removes the delimiters (a triple
  backtick and the language tag right after it) and nothing else, so it agrees with
  \<open>strip_delimiters_only\<close> on every input. It does not: the pattern ends in an
  optional line feed, and the line feed after a delimiter is removed with it.
\<close>

theorem removeFences_drops_newline:
  "removeFences ''```js\<newline>code'' = ''code''
   \<and> strip_delimiters_only ''```js\<newline>code'' = ''\<newline>code''
   \<and> removeFences ''```js\<newline>code'' \<noteq> strip_delimiters_only ''```js\<newline>code''"
  by code_simp

text \<open>
  Claim C5, amended. Stage 1 removes exactly the delimiters, a delimiter being a
  triple backtick, the word characters that follow it immediately and at most one line
  feed right after those; every other character stays, unchanged and in order. In
  full: the output is a subsequence of the input; an input with no triple backtick is
  returned as it is; and where the first triple backtick of the input comes after
  \<open>a\<close> and is followed by the word characters \<open>tag\<close> and the optional line feed
  \<open>nl\<close> (the longest such run), the output is \<open>a\<close> followed by the output for the
  remaining input.
\<close>

theorem removeFences_removes_delimiters:
  "subseq (removeFences x) x
   \<and> (\<not> sublist ''```'' x \<longrightarrow> removeFences x = x)
   \<and> (\<not> sublist ''```'' (a @ ''``'')
        \<and> (\<forall>c\<in>set tag. is_word_char c)
        \<and> (nl = [] \<or> nl = ''\<newline>'')
        \<and> (nl = [] \<longrightarrow> rest = [] \<or> (\<not> is_word_char (hd rest) \<and> hd rest \<noteq> CHR 0x0A))
      \<longrightarrow> removeFences (a @ ''```'' @ tag @ nl @ rest) = a @ removeFences rest)"
proof (intro conjI impI)
  show "subseq (removeFences x) x"
    by (rule removeFences_subseq)
next
  assume "\<not> sublist ''```'' x"
  then show "removeFences x = x"
    by (rule removeFences_id)
next
  assume h: "\<not> sublist ''```'' (a @ ''``'')
        \<and> (\<forall>c\<in>set tag. is_word_char c)
        \<and> (nl = [] \<or> nl = ''\<newline>'')
        \<and> (nl = [] \<longrightarrow> rest = [] \<or> (\<not> is_word_char (hd rest) \<and> hd rest \<noteq> CHR 0x0A))"
  then have "removeFences (a @ ''```'' @ tag @ nl @ rest) = a @ removeFences (''```'' @ tag @ nl @ rest)"
    by (intro removeFences_before_delimiter) blast
  also from h have "removeFences (''```'' @ tag @ nl @ rest) = removeFences rest"
    by (intro removeFences_at_delimiter) blast+
  finally show "removeFences (a @ ''```'' @ tag @ nl @ rest) = a @ removeFences rest" .
qed

theorem removeFences_removes_delimiters_witness:
  "\<not> sublist ''```'' ''let y;''
   \<and> removeFences ''let y;'' = ''let y;''
   \<and> \<not> sublist ''```'' (''x = 1;'' @ ''``'')
   \<and> list_all is_word_char ''js''
   \<and> removeFences (''x = 1;'' @ ''```'' @ ''js'' @ ''\<newline>'' @ ''let y;'') = ''x = 1;'' @ removeFences ''let y;''"
proof -
  have h1: "\<not> sublist ''```'' ''let y;''"
    by code_simp
  have h2: "\<not> sublist ''```'' (''x = 1;'' @ ''``'')"
    by code_simp
  have h3: "list_all is_word_char ''js''"
    by code_simp
  then have h4: "\<forall>c\<in>set ''js''. is_word_char c"
    by (simp only: list_all_iff)
  from removeFences_removes_delimiters[of "''let y;''"] h1
  have c1: "removeFences ''let y;'' = ''let y;''"
    by blast
  from removeFences_removes_delimiters[of _ "''x = 1;''" "''js''" "''\<newline>''" "''let y;''"] h2 h4
  have c2: "removeFences (''x = 1;'' @ ''```'' @ ''js'' @ ''\<newline>'' @ ''let y;'') = ''x = 1;'' @ removeFences ''let y;''"
    by blast
  from h1 c1 h2 h3 c2 show ?thesis
    by (intro conjI)
qed

section \<open>Properties of the PromptBuilder\<close>

lemma createCodePrompt_has_language: "sublist (to_string l) (createCodePrompt t l)"
  unfolding createCodePrompt_def by (rule sublist_appendI)

lemma createCodePrompt_has_transcript:
  \<open>sublist (''"'' @ t @ ''"'') (createCodePrompt t l)\<close>
proof -
  let ?pre = "''You are a code generation assistant. Convert the following natural language request into ''
       @ to_string l @ '' code.\<newline>\<newline>Request: ''"
  let ?post = "''\<newline>\<newline>Requirements:\<newline>- ''
       @ to_string (js_or (get_property languageInstructions l)
                      (JSString ''Generate clean, well-structured code.''))
       @ ''\<newline>- Include helpful comments\<newline>- Make the code production-ready\<newline>- If the request is unclear, make reasonable assumptions\<newline>- Only return the code, no explanations or markdown formatting\<newline>\<newline>Generate the ''
       @ to_string l @ '' code:''"
  have \<open>createCodePrompt t l = ?pre @ (''"'' @ t @ ''"'') @ ?post\<close>
    by (simp add: createCodePrompt_def)
  then show ?thesis
    by (simp only: sublist_appendI)
qed

text \<open>
  Where the fallback works: a language that is no own property of the table and no
  property of \<^verbatim>\<open>Object.prototype\<close> either gets the generic directive.
\<close>

lemma createCodePrompt_fallback:
  assumes "map_of languageInstructions s = None" and "map_of object_prototype s = None"
  shows \<open>createCodePrompt t (JSString s) =
     ''You are a code generation assistant. Convert the following natural language request into ''
       @ s @ '' code.\<newline>\<newline>Request: "'' @ t
       @ ''"\<newline>\<newline>Requirements:\<newline>- Generate clean, well-structured code.\<newline>- Include helpful comments\<newline>- Make the code production-ready\<newline>- If the request is unclear, make reasonable assumptions\<newline>- Only return the code, no explanations or markdown formatting\<newline>\<newline>Generate the ''
       @ s @ '' code:''\<close>
  using assms by (simp add: createCodePrompt_def get_property_def js_or_def)

lemma createCodePrompt_rust:
  \<open>createCodePrompt t (JSString ''rust'') =
     ''You are a code generation assistant. Convert the following natural language request into rust code.\<newline>\<newline>Request: "'' @ t
       @ ''"\<newline>\<newline>Requirements:\<newline>- Generate clean, well-structured code.\<newline>- Include helpful comments\<newline>- Make the code production-ready\<newline>- If the request is unclear, make reasonable assumptions\<newline>- Only return the code, no explanations or markdown formatting\<newline>\<newline>Generate the rust code:''\<close>
  by (simp add: createCodePrompt_def get_property_def js_or_def languageInstructions_def
      object_prototype_def)

text \<open>
  Claim C6. \<open>createCodePrompt\<close> reads its two arguments and a constant table and
  nothing else, so it is a function in the mathematical sense: calls with the same
  transcript and language return the same prompt. For every transcript and language
  the prompt contains the transcript verbatim between double quotes, and the text of
  the language (for a string, the string itself).
\<close>

theorem createCodePrompt_deterministic_contains_inputs:
  \<open>(\<forall>t' l'. t' = t \<and> l' = l \<longrightarrow> createCodePrompt t' l' = createCodePrompt t l)
   \<and> sublist (''"'' @ t @ ''"'') (createCodePrompt t l)
   \<and> sublist (to_string l) (createCodePrompt t l)
   \<and> sublist s (createCodePrompt t (JSString s))\<close>
proof (intro conjI)
  show "\<forall>t' l'. t' = t \<and> l' = l \<longrightarrow> createCodePrompt t' l' = createCodePrompt t l"
    by blast
next
  show \<open>sublist (''"'' @ t @ ''"'') (createCodePrompt t l)\<close>
    by (rule createCodePrompt_has_transcript)
next
  show "sublist (to_string l) (createCodePrompt t l)"
    by (rule createCodePrompt_has_language)
next
  from createCodePrompt_has_language[of "JSString s" t]
  show "sublist s (createCodePrompt t (JSString s))"
    by (simp only: to_string.simps)
qed

theorem createCodePrompt_deterministic_contains_inputs_witness:
  \<open>createCodePrompt ''add two numbers'' (JSString ''python'')
     = createCodePrompt ''add two numbers'' (JSString ''python'')
   \<and> sublist ''"add two numbers"'' (createCodePrompt ''add two numbers'' (JSString ''python''))
   \<and> sublist ''python'' (createCodePrompt ''add two numbers'' (JSString ''python''))\<close>
  using createCodePrompt_deterministic_contains_inputs
    [of "''add two numbers''" "JSString ''python''" "''python''"]
  by simp

text \<open>
  Claim C10. Called with an absent (undefined) language, \<open>createCodePrompt\<close> returns
  a prompt as for any other value: the lookup in the table misses, the generic
  directive is used, and the text \<^verbatim>\<open>undefined\<close> stands where the language name
  goes.
\<close>

theorem createCodePrompt_undefined_language:
  \<open>get_property languageInstructions JSUndefined = JSUndefined
   \<and> createCodePrompt t JSUndefined =
     ''You are a code generation assistant. Convert the following natural language request into undefined code.\<newline>\<newline>Request: "'' @ t
       @ ''"\<newline>\<newline>Requirements:\<newline>- Generate clean, well-structured code.\<newline>- Include helpful comments\<newline>- Make the code production-ready\<newline>- If the request is unclear, make reasonable assumptions\<newline>- Only return the code, no explanations or markdown formatting\<newline>\<newline>Generate the undefined code:''\<close>
  by (simp add: createCodePrompt_def get_property_def js_or_def languageInstructions_def
      object_prototype_def)

text \<open>
  Claim C2 says that every language outside the six of the table gets the generic
  directive. The lookup \<^verbatim>\<open>languageInstructions[language]\<close> also finds what the
  object literal inherits from \<^verbatim>\<open>Object.prototype\<close>, and such a value is truthy,
  so \<^verbatim>\<open>||\<close> does not fall back: for the language \<^verbatim>\<open>constructor\<close>, which is not in
  the table, the directive line is the text of the function \<^verbatim>\<open>Object\<close> and the
  generic directive is nowhere in the prompt.
\<close>

theorem createCodePrompt_constructor_language:
  \<open>map_of languageInstructions ''constructor'' = None
   \<and> createCodePrompt ''add two numbers'' (JSString ''constructor'') =
     ''You are a code generation assistant. Convert the following natural language request into constructor code.\<newline>\<newline>Request: "add two numbers"\<newline>\<newline>Requirements:\<newline>- function Object() { [native code] }\<newline>- Include helpful comments\<newline>- Make the code production-ready\<newline>- If the request is unclear, make reasonable assumptions\<newline>- Only return the code, no explanations or markdown formatting\<newline>\<newline>Generate the constructor code:''
   \<and> \<not> sublist ''Generate clean, well-structured code.''
         (createCodePrompt ''add two numbers'' (JSString ''constructor''))\<close>
  by code_simp

section \<open>Properties of the pipeline\<close>



lemma trim_Nil_blank:
  assumes "trim s = []"
  shows "blank s"
proof -
  let ?u = "dropWhile is_white_space s"
  from assms have "dropWhile is_white_space (rev ?u) = []"
    by (simp add: trim_def)
  then have all: "\<forall>c\<in>set ?u. is_white_space c"
    by (simp only: dropWhile_eq_Nil_conv set_rev)
  have "?u = []"
  proof (rule ccontr)
    assume ne: "?u \<noteq> []"
    then have "\<not> is_white_space (hd ?u)"
      by (rule hd_dropWhile)
    moreover from ne have "hd ?u \<in> set ?u"
      by (rule hd_in_set)
    ultimately show False
      using all by blast
  qed
  then have "\<forall>c\<in>set s. is_white_space c"
    by (simp only: dropWhile_eq_Nil_conv)
  then show ?thesis
    by (simp add: blank_def list_all_iff)
qed


lemma map_first_transcripts_hd:
  "\<forall>r\<in>set rs. r \<noteq> [] \<Longrightarrow> map_first_transcripts rs = Inr (map hd rs)"
proof (induction rs)
  case Nil
  show ?case by simp
next
  case (Cons r rs)
  then obtain a alts where "r = a # alts"
    by (cases r) auto
  with Cons show ?case by simp
qed

text \<open>Whatever the \<^verbatim>\<open>try\<close> block throws, the \<^verbatim>\<open>catch\<close> logs it and answers with the fixed failure.\<close>

lemma processVoice_catch:
  assumes "req_method req = ''POST''" and "try_block sv req = (evs, Inl e)"
  shows "processVoice sv req =
     (respond 500 (JsonFailure ''Failed to process voice input. Please try again.''),
      evs @ [ConsoleError ''Error processing voice:'' e])"
  using assms by (simp add: processVoice_def)




lemma try_block_speech_throws:
  assumes "req_body req = Some b" and "audio b = JSString a" and "a \<noteq> []" and "recognize sv a = Inl e"
  shows "try_block sv req = ([ConsoleLog ''Processing speech to text...'', SpeechCall a], Inl e)"
  using assms by (simp add: try_block_def Let_def)


lemma try_block_generation_throws:
  assumes "req_body req = Some b" and "audio b = JSString a" and "a \<noteq> []" and "recognize sv a = Inr results"
    and "map_first_transcripts results = Inr ts" and "trim (join ''\<newline>'' ts) \<noteq> []"
    and "generateContent sv (createCodePrompt (join ''\<newline>'' ts) (language b)) = Inl e"
  shows "try_block sv req =
     ([ConsoleLog ''Processing speech to text...'', SpeechCall a,
       ConsoleLog (''Transcript: '' @ join ''\<newline>'' ts),
       ConsoleLog ''Generating code with Gemini...'',
       GenerateCall (createCodePrompt (join ''\<newline>'' ts) (language b))],
      Inl e)"
  using assms by (simp add: try_block_def Let_def)








text \<open>
  Claim C9. Take a run that reaches the speech service (a POST whose body has a
  non-empty audio string). If the speech service call fails with an error \<open>e\<close>, or if
  it returns a transcript that is not blank and the code-generation call then fails
  with \<open>e\<close>, the handler answers with one fixed response: status 500,
  \<^verbatim>\<open>success: false\<close> and the message
  \<^verbatim>\<open>Failed to process voice input. Please try again.\<close>, in which nothing of \<open>e\<close>
  appears; and \<open>e\<close> itself is written to the error console. After a failure of the
  speech service the code-generation service is not invoked.
\<close>

theorem processVoice_service_failure:
  assumes "req_method req = ''POST''" and "req_body req = Some b"
    and "audio b = JSString a" and "a \<noteq> []"
  shows "(recognize sv a = Inl e \<longrightarrow>
            fst (processVoice sv req)
              = respond 500 (JsonFailure ''Failed to process voice input. Please try again.'')
          \<and> ConsoleError ''Error processing voice:'' e \<in> set (snd (processVoice sv req))
          \<and> \<not> generation_invoked (snd (processVoice sv req)))
     \<and> (recognize sv a = Inr results
          \<and> (\<forall>r\<in>set results. r \<noteq> [])
          \<and> \<not> blank (join ''\<newline>'' (map hd results))
          \<and> generateContent sv (createCodePrompt (join ''\<newline>'' (map hd results)) (language b))
              = Inl e \<longrightarrow>
            fst (processVoice sv req)
              = respond 500 (JsonFailure ''Failed to process voice input. Please try again.'')
          \<and> ConsoleError ''Error processing voice:'' e \<in> set (snd (processVoice sv req)))"
proof (intro conjI impI)
  {
    assume "recognize sv a = Inl e"
    from processVoice_catch[OF assms(1) try_block_speech_throws[OF assms(2,3,4) this]]
    have "processVoice sv req =
       (respond 500 (JsonFailure ''Failed to process voice input. Please try again.''),
        [ConsoleLog ''Processing speech to text...'', SpeechCall a]
          @ [ConsoleError ''Error processing voice:'' e])" .
  }
  note speech = this
  {
    assume h: "recognize sv a = Inl e"
    from speech[OF h]
    show "fst (processVoice sv req)
            = respond 500 (JsonFailure ''Failed to process voice input. Please try again.'')"
      by simp
    from speech[OF h]
    show "ConsoleError ''Error processing voice:'' e \<in> set (snd (processVoice sv req))"
      by simp
    from speech[OF h]
    show "\<not> generation_invoked (snd (processVoice sv req))"
      by (simp add: generation_invoked_def)
  }
  {
    assume h: "recognize sv a = Inr results
          \<and> (\<forall>r\<in>set results. r \<noteq> [])
          \<and> \<not> blank (join ''\<newline>'' (map hd results))
          \<and> generateContent sv (createCodePrompt (join ''\<newline>'' (map hd results)) (language b))
              = Inl e"
    then have r: "recognize sv a = Inr results"
      and ts: "map_first_transcripts results = Inr (map hd results)"
      and g: "generateContent sv (createCodePrompt (join ''\<newline>'' (map hd results)) (language b))
              = Inl e"
      by (simp_all add: map_first_transcripts_hd)
    from h have nb: "trim (join ''\<newline>'' (map hd results)) \<noteq> []"
      using trim_Nil_blank by blast
    from processVoice_catch[OF assms(1) try_block_generation_throws[OF assms(2,3,4) r ts nb g]]
    have gen: "processVoice sv req =
       (respond 500 (JsonFailure ''Failed to process voice input. Please try again.''),
        [ConsoleLog ''Processing speech to text...'', SpeechCall a,
         ConsoleLog (''Transcript: '' @ join ''\<newline>'' (map hd results)),
         ConsoleLog ''Generating code with Gemini...'',
         GenerateCall (createCodePrompt (join ''\<newline>'' (map hd results)) (language b))]
          @ [ConsoleError ''Error processing voice:'' e])" .
    from gen
    show "fst (processVoice sv req)
            = respond 500 (JsonFailure ''Failed to process voice input. Please try again.'')"
      by simp
    from gen
    show "ConsoleError ''Error processing voice:'' e \<in> set (snd (processVoice sv req))"
      by simp
  }
qed

theorem processVoice_service_failure_witness:
  "fst (processVoice
          \<lparr>recognize = (\<lambda>a. Inl (ServiceError ''3 INVALID_ARGUMENT: bad encoding'')),
             generateContent = (\<lambda>p. Inr [[''x'']])\<rparr>
          \<lparr>req_method = ''POST'',
             req_body = Some \<lparr>audio = JSString ''GkXfo59ChoEB'', language = JSString ''python''\<rparr>\<rparr>)
     = respond 500 (JsonFailure ''Failed to process voice input. Please try again.'')
   \<and> ConsoleError ''Error processing voice:'' (ServiceError ''3 INVALID_ARGUMENT: bad encoding'')
       \<in> set (snd (processVoice
          \<lparr>recognize = (\<lambda>a. Inl (ServiceError ''3 INVALID_ARGUMENT: bad encoding'')),
             generateContent = (\<lambda>p. Inr [[''x'']])\<rparr>
          \<lparr>req_method = ''POST'',
             req_body = Some \<lparr>audio = JSString ''GkXfo59ChoEB'', language = JSString ''python''\<rparr>\<rparr>))
   \<and> fst (processVoice
          \<lparr>recognize = (\<lambda>a. Inr [[''add two numbers'']]),
             generateContent = (\<lambda>p. Inl (ServiceError ''429 quota exceeded for project''))\<rparr>
          \<lparr>req_method = ''POST'',
             req_body = Some \<lparr>audio = JSString ''GkXfo59ChoEB'', language = JSString ''python''\<rparr>\<rparr>)
     = respond 500 (JsonFailure ''Failed to process voice input. Please try again.'')
   \<and> ConsoleError ''Error processing voice:'' (ServiceError ''429 quota exceeded for project'')
       \<in> set (snd (processVoice
          \<lparr>recognize = (\<lambda>a. Inr [[''add two numbers'']]),
             generateContent = (\<lambda>p. Inl (ServiceError ''429 quota exceeded for project''))\<rparr>
          \<lparr>req_method = ''POST'',
             req_body = Some \<lparr>audio = JSString ''GkXfo59ChoEB'', language = JSString ''python''\<rparr>\<rparr>))"
proof -
  let ?b = "\<lparr>audio = JSString ''GkXfo59ChoEB'', language = JSString ''python''\<rparr>"
  let ?req = "\<lparr>req_method = ''POST'', req_body = Some ?b\<rparr>"
  let ?e1 = "ServiceError ''3 INVALID_ARGUMENT: bad encoding''"
  let ?e2 = "ServiceError ''429 quota exceeded for project''"
  let ?sv1 = "\<lparr>recognize = (\<lambda>a. Inl ?e1), generateContent = (\<lambda>p. Inr [[''x'']])\<rparr>"
  let ?sv2 = "\<lparr>recognize = (\<lambda>a. Inr [[''add two numbers'']]), generateContent = (\<lambda>p. Inl ?e2)\<rparr>"
  have m: "req_method ?req = ''POST''" and rb: "req_body ?req = Some ?b"
    and a: "audio ?b = JSString ''GkXfo59ChoEB''"
    and ne: "''GkXfo59ChoEB'' \<noteq> []"
    by simp_all
  have r1: "recognize ?sv1 ''GkXfo59ChoEB'' = Inl ?e1"
    by simp
  have r2: "recognize ?sv2 ''GkXfo59ChoEB'' = Inr [[''add two numbers'']]"
    and alts: "\<forall>r\<in>set [[''add two numbers'']]. r \<noteq> []"
    and g: "generateContent ?sv2
              (createCodePrompt (join ''\<newline>'' (map hd [[''add two numbers'']])) (language ?b))
            = Inl ?e2"
    by simp_all
  have nb: "\<not> blank (join ''\<newline>'' (map hd [[''add two numbers'']]))"
    by (simp add: blank_def is_white_space_def code_unit_def)
  from processVoice_service_failure[OF m rb a ne, of ?sv1 ?e1] r1
  have 1: "fst (processVoice ?sv1 ?req)
             = respond 500 (JsonFailure ''Failed to process voice input. Please try again.'')"
    and 2: "ConsoleError ''Error processing voice:'' ?e1 \<in> set (snd (processVoice ?sv1 ?req))"
    by blast+
  from processVoice_service_failure[OF m rb a ne, of ?sv2 ?e2 "[[''add two numbers'']]"] r2 alts nb g
  have 3: "fst (processVoice ?sv2 ?req)
             = respond 500 (JsonFailure ''Failed to process voice input. Please try again.'')"
    and 4: "ConsoleError ''Error processing voice:'' ?e2 \<in> set (snd (processVoice ?sv2 ?req))"
    by blast+
  from 1 2 3 4 show ?thesis
    by (intro conjI)
qed

end
